theory Spec2Isabelle
  imports Main
begin

section \<open>Data model\<close>

text \<open>
  The hotel routes of the backend (\<^verbatim>\<open>src/routes/my-hotels.ts\<close>) and the price route
  (\<^verbatim>\<open>router.post("/changePrice")\<close>) work on one collection of hotel documents.
  A document has the fields of \<^verbatim>\<open>HotelType\<close> (\<^verbatim>\<open>shared/types\<close>) and the
  \<^verbatim>\<open>userId\<close> field that the handlers' queries filter on. The primary key
  \<^verbatim>\<open>_id\<close> is the field \<open>h_id\<close>, held in its canonical string form
  (\<^verbatim>\<open>_id.toString()\<close>). A field that a JavaScript object may lack is an option;
  the two array fields are lists (an absent array is the empty list). Time stamps are
  natural numbers.
\<close>

record booking =
  b_id :: string
  b_userId :: string
  b_firstName :: string
  b_lastName :: string
  b_email :: string
  b_checkIn :: nat
  b_checkOut :: nat
  b_totalCost :: int

record hotel =
  h_id :: string
  hotelId :: "string option"
  userId :: "string option"
  name :: "string option"
  city :: "string option"
  country :: "string option"
  description :: "string option"
  hotelType :: "string option"
  facilities :: "string list"
  pricePerNight :: "int option"
  imageUrls :: "string list"
  lastUpdated :: "nat option"
  bookings :: "booking list"

text \<open>
  The request body (\<^verbatim>\<open>req.body\<close>): every field may be present or not. The primary
  key is not a field of this record: an update leaves it as it is, and the primary key
  of a created document is a parameter of the creation.
\<close>

record patch =
  p_hotelId :: "string option"
  p_userId :: "string option"
  p_name :: "string option"
  p_city :: "string option"
  p_country :: "string option"
  p_description :: "string option"
  p_hotelType :: "string option"
  p_facilities :: "string list option"
  p_pricePerNight :: "int option"
  p_imageUrls :: "string list option"
  p_lastUpdated :: "nat option"

text \<open>An uploaded file as multer hands it over (\<^verbatim>\<open>Express.Multer.File\<close>).\<close>

record multerFile =
  mimetype :: string
  buffer :: string
  fsize :: nat

text \<open>
  The collaborators the handlers call, as parameters: \<open>castKey\<close> is the store driver's
  cast of a request string to a primary key (\<open>None\<close>: the string is malformed and
  the query throws; \<open>Some k\<close>: the canonical string of the key), \<open>toBase64\<close> is
  \<^verbatim>\<open>Buffer.toString("base64")\<close>, \<open>cloudinaryUpload\<close> is the media host
  (\<open>None\<close>: the upload is rejected; \<open>Some url\<close>: the \<^verbatim>\<open>url\<close> of its result), and
  \<open>validates\<close> is the validation of a new document against the schema of the
  \<^verbatim>\<open>Hotel\<close> model (\<^verbatim>\<open>models/hotel\<close>), which \<^verbatim>\<open>save()\<close> runs before it inserts.
\<close>

record env =
  castKey :: "string \<Rightarrow> string option"
  toBase64 :: "string \<Rightarrow> string"
  cloudinaryUpload :: "string \<Rightarrow> string option"
  validates :: "hotel \<Rightarrow> bool"

datatype error =
  CastError | ImmutableField | UploadFailed | TypeError | ValidationError | DuplicateKey

datatype multerError = LIMIT_FILE_SIZE | LIMIT_UNEXPECTED_FILE

text \<open>
  What a route answers: \<open>Doc s h\<close> is \<^verbatim>\<open>res.status(s).json(h)\<close>, \<open>Message s m\<close> is
  \<^verbatim>\<open>res.status(s).json({ message: m })\<close>, \<open>Empty s\<close> is \<^verbatim>\<open>res.status(s).send()\<close>,
  and \<open>Rejected e\<close> is the upload middleware passing the error \<open>e\<close> on instead of
  calling the handler.
\<close>

datatype response = Doc nat hotel | Message nat string | Empty nat | Rejected multerError

type_synonym store = "hotel list"

section \<open>The document store\<close>

definition emptyPatch :: patch where
  "emptyPatch = \<lparr>p_hotelId = None, p_userId = None, p_name = None, p_city = None,
     p_country = None, p_description = None, p_hotelType = None, p_facilities = None,
     p_pricePerNight = None, p_imageUrls = None, p_lastUpdated = None\<rparr>"

definition orElse :: "'a option \<Rightarrow> 'a option \<Rightarrow> 'a option" where
  "orElse new old = (case new of None \<Rightarrow> old | Some v \<Rightarrow> Some v)"

definition orElseList :: "'a list option \<Rightarrow> 'a list \<Rightarrow> 'a list" where
  "orElseList new old = (case new of None \<Rightarrow> old | Some v \<Rightarrow> v)"

text \<open>
  Setting the fields a body carries on a document: the update object of
  \<^verbatim>\<open>findOneAndUpdate\<close> and the spread \<^verbatim>\<open>{ ...existing, ...updatedFields }\<close>.
\<close>

definition applyPatch :: "patch \<Rightarrow> hotel \<Rightarrow> hotel" where
  "applyPatch p h = h\<lparr>
     hotelId := orElse (p_hotelId p) (hotelId h),
     userId := orElse (p_userId p) (userId h),
     name := orElse (p_name p) (name h),
     city := orElse (p_city p) (city h),
     country := orElse (p_country p) (country h),
     description := orElse (p_description p) (description h),
     hotelType := orElse (p_hotelType p) (hotelType h),
     facilities := orElseList (p_facilities p) (facilities h),
     pricePerNight := orElse (p_pricePerNight p) (pricePerNight h),
     imageUrls := orElseList (p_imageUrls p) (imageUrls h),
     lastUpdated := orElse (p_lastUpdated p) (lastUpdated h)\<rparr>"

text \<open>\<^verbatim>\<open>new Hotel(body)\<close> with the generated primary key \<open>newId\<close>.\<close>

definition newHotelDoc :: "string \<Rightarrow> patch \<Rightarrow> hotel" where
  "newHotelDoc newId p = applyPatch p
     \<lparr>h_id = newId, hotelId = None, userId = None, name = None, city = None,
      country = None, description = None, hotelType = None, facilities = [],
      pricePerNight = None, imageUrls = [], lastUpdated = None, bookings = []\<rparr>"

text \<open>The first document (in the collection's order) that a filter matches is the one
  a query reads or writes.\<close>

definition findOne :: "(hotel \<Rightarrow> bool) \<Rightarrow> store \<Rightarrow> hotel option" where
  "findOne flt st = List.find flt st"

fun updateFirst :: "(hotel \<Rightarrow> bool) \<Rightarrow> (hotel \<Rightarrow> hotel) \<Rightarrow> store \<Rightarrow> store" where
  "updateFirst flt upd [] = []"
| "updateFirst flt upd (d # ds) =
     (if flt d then upd d # ds else d # updateFirst flt upd ds)"

text \<open>
  \<^verbatim>\<open>findOneAndUpdate\<close>: no match gives \<open>None\<close> and writes nothing; a match is
  rewritten in place and returned as the pair (document before, document after), of
  which the caller sees the second with \<^verbatim>\<open>{ new: true }\<close> and the first without.
  An update that would change the primary key of the matched document is refused by
  the store.
\<close>

definition findOneAndUpdate ::
  "(hotel \<Rightarrow> bool) \<Rightarrow> (hotel \<Rightarrow> hotel) \<Rightarrow> store \<Rightarrow> error + ((hotel \<times> hotel) option \<times> store)" where
  "findOneAndUpdate flt upd st =
     (case List.find flt st of
        None \<Rightarrow> Inr (None, st)
      | Some d \<Rightarrow>
          if h_id (upd d) \<noteq> h_id d then Inl ImmutableField
          else Inr (Some (d, upd d), updateFirst flt upd st))"

text \<open>A filter on \<^verbatim>\<open>_id\<close> casts the request string first; a malformed string throws.\<close>

definition idFilter :: "env \<Rightarrow> string \<Rightarrow> error + (hotel \<Rightarrow> bool)" where
  "idFilter e ident =
     (case castKey e ident of
        None \<Rightarrow> Inl CastError
      | Some k \<Rightarrow> Inr (\<lambda>d. h_id d = k))"

text \<open>
  \<^verbatim>\<open>doc.save()\<close> on a document read from the store writes its modified paths
  (\<open>mods\<close>) to the document with the same primary key.
\<close>

definition save :: "(hotel \<Rightarrow> hotel) \<Rightarrow> hotel \<Rightarrow> store \<Rightarrow> store" where
  "save mods doc st = updateFirst (\<lambda>d. h_id d = h_id doc) mods st"

text \<open>
  \<^verbatim>\<open>doc.save()\<close> on a new document validates it and inserts it. The promise rejects,
  and nothing is stored, when the validation fails or when the store already holds a
  document with the primary key of the new one.
\<close>

definition insertDoc :: "env \<Rightarrow> hotel \<Rightarrow> store \<Rightarrow> error + store" where
  "insertDoc e doc st =
     (if \<not> validates e doc then Inl ValidationError
      else if h_id doc \<in> set (map h_id st) then Inl DuplicateKey
      else Inr (st @ [doc]))"

section \<open>Image upload\<close>

definition dataURI :: "env \<Rightarrow> multerFile \<Rightarrow> string" where
  "dataURI e img = ''data:'' @ mimetype img @ '';base64,'' @ toBase64 e (buffer img)"

text \<open>
  \<^verbatim>\<open>Promise.all\<close> over the uploads: the URLs in the order of the files when every
  upload succeeds, a rejection as soon as one of them fails.
\<close>

fun promiseAll :: "'a option list \<Rightarrow> error + 'a list" where
  "promiseAll [] = Inr []"
| "promiseAll (None # rs) = Inl UploadFailed"
| "promiseAll (Some u # rs) =
     (case promiseAll rs of Inl err \<Rightarrow> Inl err | Inr us \<Rightarrow> Inr (u # us))"

text \<open>\<^verbatim>\<open>uploadImages\<close>; \<open>None\<close> is \<^verbatim>\<open>req.files\<close> undefined, on which
  \<^verbatim>\<open>imageFiles.map\<close> throws.\<close>

definition uploadImages :: "env \<Rightarrow> multerFile list option \<Rightarrow> error + string list" where
  "uploadImages e imageFiles =
     (case imageFiles of
        None \<Rightarrow> Inl TypeError
      | Some fs \<Rightarrow> promiseAll (map (\<lambda>img. cloudinaryUpload e (dataURI e img)) fs))"

text \<open>
  The upload middleware \<^verbatim>\<open>upload.array("imageFiles", maxCount)\<close> with the
  \<^verbatim>\<open>fileSize\<close> limit of the \<^verbatim>\<open>multer\<close> instance. The files arrive in order; a file
  beyond \<open>maxCount\<close> or larger than the limit ends the request with an error. A
  request that is not multipart passes through with \<^verbatim>\<open>req.files\<close> undefined.
\<close>

definition fileSizeLimit :: nat where
  "fileSizeLimit = 5 * 1024 * 1024"

fun acceptFiles :: "nat option \<Rightarrow> nat \<Rightarrow> multerFile list \<Rightarrow> multerError + multerFile list" where
  "acceptFiles maxCount n [] = Inr []"
| "acceptFiles maxCount n (f # fs) =
     (if (case maxCount of None \<Rightarrow> False | Some m \<Rightarrow> m \<le> n) then Inl LIMIT_UNEXPECTED_FILE
      else if fileSizeLimit < fsize f then Inl LIMIT_FILE_SIZE
      else (case acceptFiles maxCount (Suc n) fs of
              Inl err \<Rightarrow> Inl err
            | Inr gs \<Rightarrow> Inr (f # gs)))"

definition uploadArray :: "nat option \<Rightarrow> multerFile list option \<Rightarrow> multerError + multerFile list option" where
  "uploadArray maxCount sent =
     (case sent of
        None \<Rightarrow> Inr None
      | Some fs \<Rightarrow> (case acceptFiles maxCount 0 fs of Inl err \<Rightarrow> Inl err | Inr gs \<Rightarrow> Inr (Some gs)))"

section \<open>The handlers\<close>

text \<open>
  A handler takes the store and returns its answer and the store after it. \<open>now\<close> is
  the value of \<^verbatim>\<open>new Date()\<close>, \<open>newId\<close> the primary key of a new document (the one
  \<^verbatim>\<open>new Hotel\<close> generates, or the \<^verbatim>\<open>_id\<close> of the body when it carries one), \<open>uid\<close> the \<^verbatim>\<open>req.userId\<close> that \<^verbatim>\<open>verifyToken\<close> has set (on the
  routes that use it), \<open>ident\<close> the route parameter, and \<open>sent\<close> the files of the
  multipart request (\<open>None\<close> when the request is not multipart).
\<close>

subsection \<open>\<^verbatim>\<open>POST /add-hotel\<close>\<close>

definition addHotel ::
  "env \<Rightarrow> nat \<Rightarrow> string \<Rightarrow> store \<Rightarrow> patch \<Rightarrow> multerFile list option \<Rightarrow> response \<times> store" where
  "addHotel e now newId st body imageFiles =
     (case uploadImages e imageFiles of
        Inl err \<Rightarrow> (Message 500 ''Something went wrong'', st)
      | Inr urls \<Rightarrow>
          let newHotel = body\<lparr>p_imageUrls := Some urls, p_lastUpdated := Some now,
                               p_hotelId := p_hotelId body\<rparr>;
              doc = newHotelDoc newId newHotel
          in (case insertDoc e doc st of
                Inl err \<Rightarrow> (Message 500 ''Something went wrong'', st)
              | Inr st1 \<Rightarrow> (Doc 201 doc, st1)))"

definition postAddHotel ::
  "env \<Rightarrow> nat \<Rightarrow> string \<Rightarrow> store \<Rightarrow> patch \<Rightarrow> multerFile list option \<Rightarrow> response \<times> store" where
  "postAddHotel e now newId st body sent =
     (case uploadArray (Some 6) sent of
        Inl err \<Rightarrow> (Rejected err, st)
      | Inr imageFiles \<Rightarrow> addHotel e now newId st body imageFiles)"

subsection \<open>\<^verbatim>\<open>GET /:id\<close>\<close>

text \<open>The first query throws on a malformed identifier, and the handler's only
  \<^verbatim>\<open>catch\<close> is the outer one.\<close>

definition getHotel :: "env \<Rightarrow> store \<Rightarrow> string \<Rightarrow> string \<Rightarrow> response" where
  "getHotel e st uid ident =
     (case idFilter e ident of
        Inl err \<Rightarrow> Message 500 ''Error fetching hotel''
      | Inr byId \<Rightarrow>
          let hotel = findOne (\<lambda>d. byId d \<and> userId d = Some uid) st;
              hotel = (case hotel of
                         None \<Rightarrow> findOne (\<lambda>d. hotelId d = Some ident \<and> userId d = Some uid) st
                       | Some h \<Rightarrow> Some h)
          in (case hotel of
                None \<Rightarrow> Message 404 ''Hotel not found''
              | Some h \<Rightarrow> Doc 200 h))"

subsection \<open>\<^verbatim>\<open>PUT /:hotelId\<close> (policy A)\<close>

text \<open>The inner \<^verbatim>\<open>try\<close>: the update by primary key, and when that throws, the
  update by \<^verbatim>\<open>hotelId\<close>.\<close>

definition putFindAndUpdate ::
  "env \<Rightarrow> store \<Rightarrow> string \<Rightarrow> string \<Rightarrow> patch \<Rightarrow> error + ((hotel \<times> hotel) option \<times> store)" where
  "putFindAndUpdate e st uid ident updatedHotel =
     (case (case idFilter e ident of
              Inl err \<Rightarrow> Inl err
            | Inr byId \<Rightarrow>
                findOneAndUpdate (\<lambda>d. byId d \<and> userId d = Some uid) (applyPatch updatedHotel) st) of
        Inl err \<Rightarrow>
          findOneAndUpdate (\<lambda>d. hotelId d = Some ident \<and> userId d = Some uid)
            (applyPatch updatedHotel) st
      | Inr r \<Rightarrow> Inr r)"

definition putHotel ::
  "env \<Rightarrow> nat \<Rightarrow> store \<Rightarrow> string \<Rightarrow> string \<Rightarrow> patch \<Rightarrow> multerFile list option \<Rightarrow> response \<times> store" where
  "putHotel e now st uid ident body files =
     (let updatedHotel = body\<lparr>p_lastUpdated := Some now\<rparr>
      in case putFindAndUpdate e st uid ident updatedHotel of
           Inl err \<Rightarrow> (Message 500 ''Something went wrong'', st)
         | Inr (None, st1) \<Rightarrow> (Message 404 ''Hotel not found'', st1)
         | Inr (Some (before, hotel), st1) \<Rightarrow>
             (case uploadImages e files of
                Inl err \<Rightarrow> (Message 500 ''Something went wrong'', st1)
              | Inr updatedImageUrls \<Rightarrow>
                  let urls = updatedImageUrls @ orElseList (p_imageUrls updatedHotel) [];
                      hotel = hotel\<lparr>imageUrls := urls\<rparr>
                  in (Doc 201 hotel, save (\<lambda>d. d\<lparr>imageUrls := urls\<rparr>) hotel st1)))"

definition putHotelRoute ::
  "env \<Rightarrow> nat \<Rightarrow> store \<Rightarrow> string \<Rightarrow> string \<Rightarrow> patch \<Rightarrow> multerFile list option \<Rightarrow> response \<times> store" where
  "putHotelRoute e now st uid ident body sent =
     (case uploadArray None sent of
        Inl err \<Rightarrow> (Rejected err, st)
      | Inr files \<Rightarrow> putHotel e now st uid ident body files)"

subsection \<open>\<^verbatim>\<open>PUT /update-hotel/:hotelId\<close> (policy B)\<close>

datatype queryField = QueryId | QueryHotelId

definition resolveExisting :: "env \<Rightarrow> store \<Rightarrow> string \<Rightarrow> hotel option" where
  "resolveExisting e st ident =
     (case idFilter e ident of
        Inl err \<Rightarrow> findOne (\<lambda>d. hotelId d = Some ident) st
      | Inr byId \<Rightarrow> findOne byId st)"

definition queryFieldOf :: "hotel \<Rightarrow> string \<Rightarrow> queryField" where
  "queryFieldOf existingHotel ident = (if h_id existingHotel = ident then QueryId else QueryHotelId)"

definition queryFilter :: "env \<Rightarrow> queryField \<Rightarrow> string \<Rightarrow> error + (hotel \<Rightarrow> bool)" where
  "queryFilter e q ident =
     (case q of
        QueryId \<Rightarrow> idFilter e ident
      | QueryHotelId \<Rightarrow> Inr (\<lambda>d. hotelId d = Some ident))"

text \<open>The image list of the update: the existing one, extended by the new uploads
  when there are files.\<close>

definition mergedImageUrls :: "env \<Rightarrow> hotel \<Rightarrow> multerFile list option \<Rightarrow> error + string list" where
  "mergedImageUrls e existingHotel imageFiles =
     (if (case imageFiles of None \<Rightarrow> False | Some fs \<Rightarrow> 0 < length fs) then
        (case uploadImages e imageFiles of
           Inl err \<Rightarrow> Inl err
         | Inr newImageUrls \<Rightarrow> Inr (imageUrls existingHotel @ newImageUrls))
      else Inr (imageUrls existingHotel))"

definition mergedHotel :: "nat \<Rightarrow> hotel \<Rightarrow> patch \<Rightarrow> string list \<Rightarrow> hotel" where
  "mergedHotel now existingHotel updatedFields updatedImageUrls =
     (applyPatch updatedFields existingHotel)
       \<lparr>imageUrls := updatedImageUrls, lastUpdated := Some now\<rparr>"

text \<open>
  The persistence step, on the store as it is when the update is issued (\<open>st2\<close>;
  in a run without interleaving it is the store the record was resolved in).
\<close>

definition persistUpdate ::
  "env \<Rightarrow> store \<Rightarrow> string \<Rightarrow> hotel \<Rightarrow> hotel \<Rightarrow> response \<times> store" where
  "persistUpdate e st2 ident existingHotel updatedHotel =
     (case (case queryFilter e (queryFieldOf existingHotel ident) ident of
              Inl err \<Rightarrow> Inl err
            | Inr flt \<Rightarrow> findOneAndUpdate flt (\<lambda>d. updatedHotel) st2) of
        Inl err \<Rightarrow> (Message 500 ''Something went wrong'', st2)
      | Inr (None, st3) \<Rightarrow> (Message 404 ''Hotel not found'', st3)
      | Inr (Some (before, hotel), st3) \<Rightarrow> (Doc 200 hotel, st3))"

definition updateHotel ::
  "env \<Rightarrow> nat \<Rightarrow> store \<Rightarrow> string \<Rightarrow> patch \<Rightarrow> multerFile list option \<Rightarrow> response \<times> store" where
  "updateHotel e now st ident updatedFields imageFiles =
     (case resolveExisting e st ident of
        None \<Rightarrow> (Message 404 ''Hotel not found'', st)
      | Some existingHotel \<Rightarrow>
          (case mergedImageUrls e existingHotel imageFiles of
             Inl err \<Rightarrow> (Message 500 ''Something went wrong'', st)
           | Inr updatedImageUrls \<Rightarrow>
               persistUpdate e st ident existingHotel
                 (mergedHotel now existingHotel updatedFields updatedImageUrls)))"

definition putUpdateHotel ::
  "env \<Rightarrow> nat \<Rightarrow> store \<Rightarrow> string \<Rightarrow> patch \<Rightarrow> multerFile list option \<Rightarrow> response \<times> store" where
  "putUpdateHotel e now st ident body sent =
     (case uploadArray (Some 6) sent of
        Inl err \<Rightarrow> (Rejected err, st)
      | Inr imageFiles \<Rightarrow> updateHotel e now st ident body imageFiles)"

subsection \<open>\<^verbatim>\<open>POST /changePrice\<close>\<close>

text \<open>The document returned is the one before the update (no \<^verbatim>\<open>new\<close> option), so
  the \<^verbatim>\<open>save\<close> that follows has no modified path to write.\<close>

definition changePrice :: "store \<Rightarrow> string \<Rightarrow> int \<Rightarrow> response \<times> store" where
  "changePrice st ident newPrice =
     (case findOneAndUpdate (\<lambda>d. userId d = Some ident)
             (applyPatch (emptyPatch\<lparr>p_pricePerNight := Some newPrice\<rparr>)) st of
        Inl err \<Rightarrow> (Message 500 ''something went wrong'', st)
      | Inr (None, st1) \<Rightarrow> (Message 400 ''hotel not found'', st1)
      | Inr (Some (hotel, after), st1) \<Rightarrow> (Empty 200, save (\<lambda>d. d) hotel st1))"

section \<open>Example data\<close>

text \<open>
  Concrete collaborators and documents for evaluating the handlers. The cast accepts
  the 24 hexadecimal digit form of a primary key and yields its lower-case string; the
  media host accepts image data URIs only.
\<close>

definition isHexDigit :: "char \<Rightarrow> bool" where
  "isHexDigit c = (c \<in> set ''0123456789abcdefABCDEF'')"

definition lowerHex :: "char \<Rightarrow> char" where
  "lowerHex c =
     (if c = CHR ''A'' then CHR ''a'' else if c = CHR ''B'' then CHR ''b''
      else if c = CHR ''C'' then CHR ''c'' else if c = CHR ''D'' then CHR ''d''
      else if c = CHR ''E'' then CHR ''e'' else if c = CHR ''F'' then CHR ''f'' else c)"

definition objectIdCast :: "string \<Rightarrow> string option" where
  "objectIdCast s =
     (if length s = 24 \<and> list_all isHexDigit s then Some (map lowerHex s) else None)"

definition mediaHost :: "string \<Rightarrow> string option" where
  "mediaHost uri =
     (if take 11 uri = ''data:image/'' then Some (''https://media.example/'' @ drop 11 uri)
      else None)"

definition exampleEnv :: env where
  "exampleEnv = \<lparr>castKey = objectIdCast, toBase64 = (\<lambda>b. b), cloudinaryUpload = mediaHost,
     validates = (\<lambda>doc. True)\<rparr>"

text \<open>The same collaborators with a schema that requires a name.\<close>

definition strictEnv :: env where
  "strictEnv = exampleEnv\<lparr>validates := (\<lambda>doc. name doc \<noteq> None)\<rparr>"

definition pngFile :: "string \<Rightarrow> multerFile" where
  "pngFile content = \<lparr>mimetype = ''image/png'', buffer = content, fsize = length content\<rparr>"

definition textFile :: "string \<Rightarrow> multerFile" where
  "textFile content = \<lparr>mimetype = ''text/plain'', buffer = content, fsize = length content\<rparr>"

definition hotelA :: hotel where
  "hotelA = \<lparr>h_id = ''64f000000000000000000001'', hotelId = Some ''h1'', userId = Some ''u1'',
     name = Some ''Sea View'', city = Some ''Pune'', country = Some ''India'',
     description = Some ''Rooms by the sea'', hotelType = Some ''Budget'',
     facilities = [''wifi'', ''pool''], pricePerNight = Some 100,
     imageUrls = [''https://media.example/a.png''], lastUpdated = Some 1000, bookings = []\<rparr>"

definition hotelB :: hotel where
  "hotelB = hotelA\<lparr>h_id := ''64f000000000000000000002'', hotelId := Some ''h2'',
     userId := Some ''h1'', name := Some ''Hill Top''\<rparr>"

definition sevenFiles :: "multerFile list" where
  "sevenFiles = [pngFile ''A'', pngFile ''B'', pngFile ''C'', pngFile ''D'', pngFile ''E'',
     pngFile ''F'', pngFile ''G'']"

definition hotelC :: hotel where
  "hotelC = hotelA\<lparr>h_id := ''64f000000000000000000004'',
     hotelId := Some ''64f0000000000000000000aa''\<rparr>"

definition createdDoc :: "string option \<Rightarrow> string option \<Rightarrow> hotel" where
  "createdDoc business owner = \<lparr>h_id = ''64f000000000000000000003'', hotelId = business,
     userId = owner, name = None, city = None, country = None, description = None,
     hotelType = None, facilities = [''wifi'', ''pool''], pricePerNight = Some 100,
     imageUrls = [''https://media.example/png;base64,AAAA''], lastUpdated = Some 2000,
     bookings = []\<rparr>"

definition createBody :: "string option \<Rightarrow> string option \<Rightarrow> patch" where
  "createBody business owner = emptyPatch\<lparr>p_hotelId := business, p_userId := owner,
     p_facilities := Some [''wifi'', ''pool''], p_pricePerNight := Some 100\<rparr>"

section \<open>Basic facts about the store and the upload\<close>

lemmas example_defs = exampleEnv_def strictEnv_def mediaHost_def objectIdCast_def isHexDigit_def lowerHex_def
  pngFile_def textFile_def hotelA_def hotelB_def

lemmas create_defs = hotelC_def createdDoc_def createBody_def

lemmas model_defs = applyPatch_def emptyPatch_def orElse_def orElseList_def newHotelDoc_def
  findOne_def findOneAndUpdate_def idFilter_def save_def insertDoc_def dataURI_def
  uploadImages_def fileSizeLimit_def uploadArray_def

lemmas handler_defs = addHotel_def postAddHotel_def getHotel_def putFindAndUpdate_def
  putHotel_def putHotelRoute_def resolveExisting_def queryFieldOf_def queryFilter_def
  mergedImageUrls_def mergedHotel_def persistUpdate_def updateHotel_def putUpdateHotel_def
  changePrice_def Let_def

lemma h_id_applyPatch [simp]: "h_id (applyPatch p h) = h_id h"
  by (simp add: applyPatch_def)

lemma updateFirst_no_match: "List.find flt st = None \<Longrightarrow> updateFirst flt upd st = st"
  by (induction st) (auto split: if_splits)

lemma updateFirst_ident [simp]: "updateFirst flt (\<lambda>d. d) st = st"
  by (induction st) auto

lemma length_updateFirst [simp]: "length (updateFirst flt upd st) = length st"
  by (induction st) auto

lemma nth_updateFirst_other:
  "i < length st \<Longrightarrow> \<not> flt (st ! i) \<Longrightarrow> updateFirst flt upd st ! i = st ! i"
  by (induction st arbitrary: i) (auto simp: nth_Cons split: nat.splits)

lemma findOneAndUpdate_applyPatch:
  "findOneAndUpdate flt (applyPatch p) st =
     Inr (map_option (\<lambda>d. (d, applyPatch p d)) (List.find flt st), updateFirst flt (applyPatch p) st)"
  by (auto simp: findOneAndUpdate_def updateFirst_no_match split: option.splits)

lemma applyPatch_price:
  "applyPatch (emptyPatch\<lparr>p_pricePerNight := Some v\<rparr>) = (\<lambda>d. d\<lparr>pricePerNight := Some v\<rparr>)"
  by (rule ext) (simp add: applyPatch_def emptyPatch_def orElse_def orElseList_def)

lemma promiseAll_Inr: "promiseAll rs = Inr us \<Longrightarrow> rs = map Some us"
  by (induction rs arbitrary: us rule: promiseAll.induct) (auto split: sum.splits)

lemma promiseAll_cases:
  "promiseAll rs = (if None \<in> set rs then Inl UploadFailed else Inr (map the rs))"
  by (induction rs rule: promiseAll.induct) auto

lemma None_in_map: "None \<in> set (map g fs) \<longleftrightarrow> (\<exists>f \<in> set fs. g f = None)"
  by (induction fs) auto

lemma uploadImages_Some:
  "uploadImages e (Some fs) =
     (if \<exists>f \<in> set fs. cloudinaryUpload e (dataURI e f) = None then Inl UploadFailed
      else Inr (map (\<lambda>f. the (cloudinaryUpload e (dataURI e f))) fs))"
  by (simp add: uploadImages_def promiseAll_cases None_in_map comp_def del: set_map)

lemma find_in_set: "List.find flt st = Some d \<Longrightarrow> d \<in> set st \<and> flt d"
  by (induction st) (auto split: if_splits)

lemma distinct_h_id_eq:
  "distinct (map h_id st) \<Longrightarrow> d \<in> set st \<Longrightarrow> d' \<in> set st \<Longrightarrow> h_id d = h_id d' \<Longrightarrow> d = d'"
  by (auto simp: distinct_map dest: inj_onD)

lemma map_updateFirst_same:
  "List.find flt st = Some d \<Longrightarrow> g (upd d) = g d \<Longrightarrow> map g (updateFirst flt upd st) = map g st"
  by (induction st) (auto split: if_splits)

lemma find_updateFirst_same_filter:
  "List.find flt st = Some d \<Longrightarrow> flt (upd d) \<Longrightarrow>
   List.find flt (updateFirst flt upd st) = Some (upd d)"
  by (induction st) (auto split: if_splits)

lemma find_by_id_updateFirst:
  "List.find flt st = Some d \<Longrightarrow> distinct (map h_id st) \<Longrightarrow> h_id (upd d) = h_id d \<Longrightarrow>
   List.find (\<lambda>x. h_id x = h_id d) (updateFirst flt upd st) = Some (upd d)"
proof (induction st)
  case Nil
  then show ?case by simp
next
  case (Cons a st)
  show ?case
  proof (cases "flt a")
    case True
    with Cons.prems show ?thesis by simp
  next
    case False
    with Cons.prems have f: "List.find flt st = Some d" and dist: "distinct (map h_id st)"
      and notin: "h_id a \<notin> h_id ` set st" by simp_all
    from f have "d \<in> set st" by (simp add: find_in_set)
    with notin have "h_id a \<noteq> h_id d" by auto
    with False Cons.IH [OF f dist Cons.prems(3)] show ?thesis by simp
  qed
qed

lemma find_snoc:
  "List.find P (xs @ [x]) =
     (case List.find P xs of Some y \<Rightarrow> Some y | None \<Rightarrow> if P x then Some x else None)"
  by (induction xs) auto

lemma acceptFiles_over:
  "n \<le> m \<Longrightarrow> m < n + length fs \<Longrightarrow> \<exists>err. acceptFiles (Some m) n fs = Inl err"
proof (induction fs arbitrary: n)
  case Nil
  then show ?case by simp
next
  case (Cons f fs)
  show ?case
  proof (cases "n = m")
    case True
    then show ?thesis by simp
  next
    case False
    with Cons.prems have "Suc n \<le> m" and "m < Suc n + length fs" by simp_all
    from Cons.IH [OF this] obtain err where "acceptFiles (Some m) (Suc n) fs = Inl err" ..
    then show ?thesis by simp
  qed
qed

section \<open>Creation\<close>

lemma h_id_newHotelDoc: "h_id (newHotelDoc newId body) = newId"
  by (simp add: newHotelDoc_def)

lemma newHotelDoc_uploaded:
  "newHotelDoc newId (body\<lparr>p_imageUrls := Some urls, p_lastUpdated := Some now,
       p_hotelId := p_hotelId body\<rparr>)
     = (newHotelDoc newId body)\<lparr>imageUrls := urls, lastUpdated := Some now\<rparr>"
  by (simp add: newHotelDoc_def applyPatch_def orElse_def orElseList_def)

lemma addHotel_uploaded:
  assumes "uploadImages e imageFiles = Inr urls"
  shows "addHotel e now newId st body imageFiles =
     (if validates e ((newHotelDoc newId body)\<lparr>imageUrls := urls, lastUpdated := Some now\<rparr>)
         \<and> newId \<notin> set (map h_id st)
      then (Doc 201 ((newHotelDoc newId body)\<lparr>imageUrls := urls, lastUpdated := Some now\<rparr>),
            st @ [(newHotelDoc newId body)\<lparr>imageUrls := urls, lastUpdated := Some now\<rparr>])
      else (Message 500 ''Something went wrong'', st))"
  unfolding addHotel_def Let_def newHotelDoc_uploaded
  by (simp add: assms insertDoc_def h_id_newHotelDoc)

lemma addHotel_upload_failed:
  "uploadImages e imageFiles = Inl err \<Longrightarrow>
   addHotel e now newId st body imageFiles = (Message 500 ''Something went wrong'', st)"
  by (simp add: addHotel_def)

text \<open>
  C7. \<^verbatim>\<open>POST /add-hotel\<close>: when every upload succeeds, there is one URL per file in
  the order of the files; the document assembled carries exactly these URLs as its
  image list and the call time as \<open>lastUpdated\<close>; when the store accepts it (it is
  valid and its primary key is new) it is appended to the store and returned with 201,
  and when the store refuses it the answer is the internal error and the store is as
  before. When one upload fails, the answer is the internal error and the store is as
  before.
\<close>

theorem addHotel_all_or_nothing:
  "((\<forall>f \<in> set fs. cloudinaryUpload e (dataURI e f) \<noteq> None) \<longrightarrow>
      (\<exists>urls. map Some urls = map (\<lambda>f. cloudinaryUpload e (dataURI e f)) fs
         \<and> length urls = length fs
         \<and> h_id ((newHotelDoc newId body)\<lparr>imageUrls := urls, lastUpdated := Some now\<rparr>) = newId
         \<and> imageUrls ((newHotelDoc newId body)\<lparr>imageUrls := urls, lastUpdated := Some now\<rparr>) = urls
         \<and> lastUpdated ((newHotelDoc newId body)\<lparr>imageUrls := urls, lastUpdated := Some now\<rparr>)
             = Some now
         \<and> (validates e ((newHotelDoc newId body)\<lparr>imageUrls := urls, lastUpdated := Some now\<rparr>)
              \<and> newId \<notin> set (map h_id st) \<longrightarrow>
            addHotel e now newId st body (Some fs)
              = (Doc 201 ((newHotelDoc newId body)\<lparr>imageUrls := urls, lastUpdated := Some now\<rparr>),
                 st @ [(newHotelDoc newId body)\<lparr>imageUrls := urls, lastUpdated := Some now\<rparr>]))
         \<and> (\<not> validates e ((newHotelDoc newId body)\<lparr>imageUrls := urls, lastUpdated := Some now\<rparr>)
              \<or> newId \<in> set (map h_id st) \<longrightarrow>
            addHotel e now newId st body (Some fs) = (Message 500 ''Something went wrong'', st))))
   \<and> ((\<exists>f \<in> set fs. cloudinaryUpload e (dataURI e f) = None) \<longrightarrow>
      addHotel e now newId st body (Some fs) = (Message 500 ''Something went wrong'', st))"
proof (intro conjI impI)
  assume ok: "\<forall>f \<in> set fs. cloudinaryUpload e (dataURI e f) \<noteq> None"
  let ?urls = "map (\<lambda>f. the (cloudinaryUpload e (dataURI e f))) fs"
  from ok have up: "uploadImages e (Some fs) = Inr ?urls"
    by (simp add: uploadImages_Some)
  from ok have one: "map Some ?urls = map (\<lambda>f. cloudinaryUpload e (dataURI e f)) fs"
    by auto
  have key: "h_id ((newHotelDoc newId body)\<lparr>imageUrls := ?urls, lastUpdated := Some now\<rparr>) = newId"
    by (simp add: newHotelDoc_def)
  show "\<exists>urls. map Some urls = map (\<lambda>f. cloudinaryUpload e (dataURI e f)) fs
         \<and> length urls = length fs
         \<and> h_id ((newHotelDoc newId body)\<lparr>imageUrls := urls, lastUpdated := Some now\<rparr>) = newId
         \<and> imageUrls ((newHotelDoc newId body)\<lparr>imageUrls := urls, lastUpdated := Some now\<rparr>) = urls
         \<and> lastUpdated ((newHotelDoc newId body)\<lparr>imageUrls := urls, lastUpdated := Some now\<rparr>)
             = Some now
         \<and> (validates e ((newHotelDoc newId body)\<lparr>imageUrls := urls, lastUpdated := Some now\<rparr>)
              \<and> newId \<notin> set (map h_id st) \<longrightarrow>
            addHotel e now newId st body (Some fs)
              = (Doc 201 ((newHotelDoc newId body)\<lparr>imageUrls := urls, lastUpdated := Some now\<rparr>),
                 st @ [(newHotelDoc newId body)\<lparr>imageUrls := urls, lastUpdated := Some now\<rparr>]))
         \<and> (\<not> validates e ((newHotelDoc newId body)\<lparr>imageUrls := urls, lastUpdated := Some now\<rparr>)
              \<or> newId \<in> set (map h_id st) \<longrightarrow>
            addHotel e now newId st body (Some fs) = (Message 500 ''Something went wrong'', st))"
    using one key addHotel_uploaded [OF up, of now newId st body]
    by (intro exI [of _ ?urls]) auto
next
  assume "\<exists>f \<in> set fs. cloudinaryUpload e (dataURI e f) = None"
  then have "uploadImages e (Some fs) = Inl UploadFailed"
    by (simp add: uploadImages_Some)
  then show "addHotel e now newId st body (Some fs) = (Message 500 ''Something went wrong'', st)"
    by (rule addHotel_upload_failed)
qed

theorem addHotel_all_or_nothing_witness:
  "cloudinaryUpload exampleEnv (dataURI exampleEnv (pngFile ''AAAA'')) \<noteq> None
   \<and> addHotel exampleEnv 2000 ''64f000000000000000000003'' [hotelA]
        (createBody (Some ''h1'') (Some ''u1'')) (Some [pngFile ''AAAA''])
      = (Doc 201 (createdDoc (Some ''h1'') (Some ''u1'')),
         [hotelA, createdDoc (Some ''h1'') (Some ''u1'')])
   \<and> h_id hotelA = ''64f000000000000000000001''
   \<and> addHotel exampleEnv 2000 ''64f000000000000000000001'' [hotelA]
        (createBody (Some ''h1'') (Some ''u1'')) (Some [pngFile ''AAAA''])
      = (Message 500 ''Something went wrong'', [hotelA])
   \<and> name (createdDoc (Some ''h1'') (Some ''u1'')) = None
   \<and> addHotel strictEnv 2000 ''64f000000000000000000003'' [hotelA]
        (createBody (Some ''h1'') (Some ''u1'')) (Some [pngFile ''AAAA''])
      = (Message 500 ''Something went wrong'', [hotelA])
   \<and> cloudinaryUpload exampleEnv (dataURI exampleEnv (textFile ''x'')) = None
   \<and> addHotel exampleEnv 2000 ''64f000000000000000000003'' [hotelA]
        (createBody (Some ''h1'') (Some ''u1''))
        (Some [pngFile ''AAAA'', textFile ''x'', pngFile ''BBBB''])
      = (Message 500 ''Something went wrong'', [hotelA])"
  using addHotel_all_or_nothing [where fs = "[pngFile ''AAAA'']" and e = exampleEnv
      and newId = "''64f000000000000000000003''" and now = 2000 and st = "[hotelA]"
      and body = "createBody (Some ''h1'') (Some ''u1'')"]
    addHotel_all_or_nothing [where fs = "[pngFile ''AAAA'']" and e = exampleEnv
      and newId = "''64f000000000000000000001''" and now = 2000 and st = "[hotelA]"
      and body = "createBody (Some ''h1'') (Some ''u1'')"]
    addHotel_all_or_nothing [where fs = "[pngFile ''AAAA'']" and e = strictEnv
      and newId = "''64f000000000000000000003''" and now = 2000 and st = "[hotelA]"
      and body = "createBody (Some ''h1'') (Some ''u1'')"]
    addHotel_all_or_nothing [where fs = "[pngFile ''AAAA'', textFile ''x'', pngFile ''BBBB'']"
      and e = exampleEnv and newId = "''64f000000000000000000003''" and now = 2000
      and st = "[hotelA]" and body = "createBody (Some ''h1'') (Some ''u1'')"]
  by (simp add: create_defs example_defs model_defs handler_defs)

section \<open>Price adjustment\<close>

lemma changePrice_store:
  "snd (changePrice st ident newPrice) =
     updateFirst (\<lambda>d. userId d = Some ident) (\<lambda>d. d\<lparr>pricePerNight := Some newPrice\<rparr>) st"
  unfolding changePrice_def findOneAndUpdate_applyPatch
  by (auto simp: save_def applyPatch_price split: option.splits)

text \<open>
  C10. \<^verbatim>\<open>POST /changePrice\<close> selects the document by matching the supplied
  \<^verbatim>\<open>hotelId\<close> value against the \<^verbatim>\<open>userId\<close> field: the store after the call is the
  store before it with the price set on the first document whose \<^verbatim>\<open>userId\<close> equals
  the value, so a document whose \<^verbatim>\<open>userId\<close> differs from the value is left as it
  was, whatever its primary key and its \<^verbatim>\<open>hotelId\<close> are.
\<close>

theorem changePrice_selects_by_userId:
  "snd (changePrice st ident newPrice) =
     updateFirst (\<lambda>d. userId d = Some ident) (\<lambda>d. d\<lparr>pricePerNight := Some newPrice\<rparr>) st
   \<and> length (snd (changePrice st ident newPrice)) = length st
   \<and> (\<forall>i < length st. userId (st ! i) \<noteq> Some ident \<longrightarrow>
         snd (changePrice st ident newPrice) ! i = st ! i)"
  by (simp add: changePrice_store nth_updateFirst_other)

theorem changePrice_selects_by_userId_witness:
  "userId ([hotelA, hotelB] ! 0) \<noteq> Some ''h1'' \<and> hotelId ([hotelA, hotelB] ! 0) = Some ''h1''
   \<and> snd (changePrice [hotelA, hotelB] ''h1'' 150) ! 0 = hotelA
   \<and> snd (changePrice [hotelA, hotelB] ''h1'' 150) ! 1 = hotelB\<lparr>pricePerNight := Some 150\<rparr>"
  using changePrice_selects_by_userId [of "[hotelA, hotelB]" "''h1''" 150]
  by (simp add: hotelA_def hotelB_def)

lemma changePrice_lastUpdated:
  "map lastUpdated (snd (changePrice st ident newPrice)) = map lastUpdated st"
  unfolding changePrice_store by (induction st) auto

text \<open>
  C8. Creation and both updates write \<open>lastUpdated\<close>; the price adjustment reads no
  clock and does not: the price of \<open>hotelB\<close> goes from 100 to 150 and its
  \<open>lastUpdated\<close> stays 1000.
\<close>

theorem changePrice_keeps_lastUpdated:
  "changePrice [hotelB] ''h1'' 150 = (Empty 200, [hotelB\<lparr>pricePerNight := Some 150\<rparr>])
   \<and> pricePerNight hotelB = Some 100
   \<and> map lastUpdated (snd (changePrice [hotelB] ''h1'' 150)) = [Some 1000]
   \<and> lastUpdated hotelB = Some 1000"
  by (simp add: example_defs model_defs handler_defs)

section \<open>Resolution\<close>

lemma getHotel_malformed:
  "castKey e ident = None \<Longrightarrow> getHotel e st uid ident = Message 500 ''Error fetching hotel''"
  by (simp add: getHotel_def idFilter_def)

lemma getHotel_wellformed:
  "castKey e ident = Some k \<Longrightarrow>
   getHotel e st uid ident =
     (case List.find (\<lambda>d. h_id d = k \<and> userId d = Some uid) st of
        Some h \<Rightarrow> Doc 200 h
      | None \<Rightarrow>
          (case List.find (\<lambda>d. hotelId d = Some ident \<and> userId d = Some uid) st of
             Some h \<Rightarrow> Doc 200 h
           | None \<Rightarrow> Message 404 ''Hotel not found''))"
  by (simp add: getHotel_def idFilter_def findOne_def split: option.splits)

text \<open>
  C3. \<^verbatim>\<open>GET /:id\<close> with an identifier that is malformed as a primary key: the first
  query throws, the lookup by \<^verbatim>\<open>hotelId\<close> is never made, and the answer is the internal
  error, both when a document of the owner carries the identifier as its
  \<^verbatim>\<open>hotelId\<close> and when no document matches at all.
\<close>

theorem getHotel_business_key_internal_error:
  "hotelId hotelA = Some ''h1'' \<and> userId hotelA = Some ''u1''
   \<and> getHotel exampleEnv [hotelA] ''u1'' ''h1'' = Message 500 ''Error fetching hotel''
   \<and> getHotel exampleEnv [] ''u1'' ''h1'' = Message 500 ''Error fetching hotel''"
  by (simp add: example_defs model_defs handler_defs)

section \<open>Creation followed by resolution\<close>

lemma addHotel_created:
  assumes "addHotel e now newId st body files = (Doc s R, st')"
  shows "\<exists>urls. uploadImages e files = Inr urls
     \<and> R = (newHotelDoc newId body)\<lparr>imageUrls := urls, lastUpdated := Some now\<rparr>
     \<and> st' = st @ [R]"
  using assms
  by (cases "uploadImages e files")
    (auto simp: addHotel_def Let_def insertDoc_def newHotelDoc_def applyPatch_def orElse_def
       orElseList_def split: if_splits)

lemma newHotelDoc_keys:
  "h_id (newHotelDoc newId body) = newId" "userId (newHotelDoc newId body) = p_userId body"
  "hotelId (newHotelDoc newId body) = p_hotelId body"
  by (simp_all add: newHotelDoc_def applyPatch_def orElse_def split: option.splits)

lemma find_None_all: "(\<forall>d \<in> set st. \<not> P d) \<Longrightarrow> List.find P st = None"
  by (simp add: find_None_iff)

text \<open>
  C4, as stated, fails. A hotel created from a body without \<^verbatim>\<open>userId\<close> (the handler
  assigns no owner) is found by no owner-scoped \<^verbatim>\<open>GET /:id\<close>; and a hotel created
  with a business key that an earlier hotel of the same owner carries is not the one
  that the business key resolves to.
\<close>

theorem created_hotel_not_resolved:
  "addHotel exampleEnv 2000 ''64f000000000000000000003'' [] (createBody (Some ''h1'') None)
       (Some [pngFile ''AAAA''])
     = (Doc 201 (createdDoc (Some ''h1'') None), [createdDoc (Some ''h1'') None])
   \<and> getHotel exampleEnv [createdDoc (Some ''h1'') None] ''u1'' ''64f000000000000000000003''
     = Message 404 ''Hotel not found''
   \<and> addHotel exampleEnv 2000 ''64f000000000000000000003'' [hotelC]
       (createBody (Some ''64f0000000000000000000aa'') (Some ''u1'')) (Some [pngFile ''AAAA''])
     = (Doc 201 (createdDoc (Some ''64f0000000000000000000aa'') (Some ''u1'')),
        [hotelC, createdDoc (Some ''64f0000000000000000000aa'') (Some ''u1'')])
   \<and> getHotel exampleEnv [hotelC, createdDoc (Some ''64f0000000000000000000aa'') (Some ''u1'')]
       ''u1'' ''64f0000000000000000000aa''
     = Doc 200 hotelC
   \<and> hotelC \<noteq> createdDoc (Some ''64f0000000000000000000aa'') (Some ''u1'')"
  by (simp add: create_defs example_defs model_defs handler_defs)

text \<open>
  C4, amended. Let the hotel \<open>R\<close> be created with a fresh primary key that casts to
  itself, from a body whose \<^verbatim>\<open>userId\<close> is \<open>uid\<close>. Then \<^verbatim>\<open>GET /:id\<close> by
  \<open>uid\<close> with the primary key of \<open>R\<close> returns \<open>R\<close>; and with the business key
  \<open>b\<close> of \<open>R\<close> it returns \<open>R\<close> when \<open>b\<close> is well-formed as a primary key, no
  hotel of \<open>uid\<close> has that primary key, and no earlier hotel of \<open>uid\<close> carries the
  business key \<open>b\<close>.
\<close>

theorem created_hotel_resolves:
  assumes fresh: "\<forall>d \<in> set st. h_id d \<noteq> newId"
    and canon: "castKey e newId = Some newId"
    and created: "addHotel e now newId st body files = (Doc s R, st')"
    and owner: "p_userId body = Some uid"
  shows "h_id R = newId \<and> hotelId R = p_hotelId body \<and> userId R = Some uid
    \<and> getHotel e st' uid (h_id R) = Doc 200 R
    \<and> (p_hotelId body = Some b \<and> castKey e b = Some k
         \<and> (\<forall>d \<in> set st'. \<not> (h_id d = k \<and> userId d = Some uid))
         \<and> (\<forall>d \<in> set st. \<not> (hotelId d = Some b \<and> userId d = Some uid))
       \<longrightarrow> getHotel e st' uid b = Doc 200 R)"
proof -
  from addHotel_created [OF created] obtain urls where
    R: "R = (newHotelDoc newId body)\<lparr>imageUrls := urls, lastUpdated := Some now\<rparr>"
    and st': "st' = st @ [R]" by blast
  from R owner have keys: "h_id R = newId" "hotelId R = p_hotelId body" "userId R = Some uid"
    by (simp_all add: newHotelDoc_keys)
  from fresh have "List.find (\<lambda>d. h_id d = newId \<and> userId d = Some uid) st = None"
    by (intro find_None_all) simp
  with keys st' have "List.find (\<lambda>d. h_id d = newId \<and> userId d = Some uid) st' = Some R"
    by (simp add: find_snoc)
  with canon keys have byPrimary: "getHotel e st' uid (h_id R) = Doc 200 R"
    by (simp add: getHotel_wellformed)
  have byBusiness: "getHotel e st' uid b = Doc 200 R"
    if b: "p_hotelId body = Some b" and k: "castKey e b = Some k"
      and nok: "\<forall>d \<in> set st'. \<not> (h_id d = k \<and> userId d = Some uid)"
      and nob: "\<forall>d \<in> set st. \<not> (hotelId d = Some b \<and> userId d = Some uid)"
  proof -
    from nok have "List.find (\<lambda>d. h_id d = k \<and> userId d = Some uid) st' = None"
      by (rule find_None_all)
    moreover from nob have "List.find (\<lambda>d. hotelId d = Some b \<and> userId d = Some uid) st = None"
      by (rule find_None_all)
    with keys b st' have "List.find (\<lambda>d. hotelId d = Some b \<and> userId d = Some uid) st' = Some R"
      by (simp add: find_snoc)
    ultimately show ?thesis using k by (simp add: getHotel_wellformed)
  qed
  from keys byPrimary byBusiness show ?thesis by blast
qed

theorem created_hotel_resolves_witness:
  "h_id hotelA \<noteq> ''64f000000000000000000003''
   \<and> castKey exampleEnv ''64f000000000000000000003'' = Some ''64f000000000000000000003''
   \<and> addHotel exampleEnv 2000 ''64f000000000000000000003'' [hotelA]
       (createBody (Some ''64f0000000000000000000aa'') (Some ''u1'')) (Some [pngFile ''AAAA''])
     = (Doc 201 (createdDoc (Some ''64f0000000000000000000aa'') (Some ''u1'')),
        [hotelA, createdDoc (Some ''64f0000000000000000000aa'') (Some ''u1'')])
   \<and> getHotel exampleEnv [hotelA, createdDoc (Some ''64f0000000000000000000aa'') (Some ''u1'')]
       ''u1'' ''64f000000000000000000003''
     = Doc 200 (createdDoc (Some ''64f0000000000000000000aa'') (Some ''u1''))
   \<and> getHotel exampleEnv [hotelA, createdDoc (Some ''64f0000000000000000000aa'') (Some ''u1'')]
       ''u1'' ''64f0000000000000000000aa''
     = Doc 200 (createdDoc (Some ''64f0000000000000000000aa'') (Some ''u1''))"
proof -
  let ?R = "createdDoc (Some ''64f0000000000000000000aa'') (Some ''u1'')"
  let ?body = "createBody (Some ''64f0000000000000000000aa'') (Some ''u1'')"
  have fresh: "\<forall>d \<in> set [hotelA]. h_id d \<noteq> ''64f000000000000000000003''"
    by (simp add: example_defs)
  have canon: "castKey exampleEnv ''64f000000000000000000003'' = Some ''64f000000000000000000003''"
    by (simp add: example_defs)
  have created: "addHotel exampleEnv 2000 ''64f000000000000000000003'' [hotelA] ?body
      (Some [pngFile ''AAAA'']) = (Doc 201 ?R, [hotelA, ?R])"
    by (simp add: create_defs example_defs model_defs handler_defs)
  have owner: "p_userId ?body = Some ''u1''"
    by (simp add: create_defs emptyPatch_def)
  have business: "p_hotelId ?body = Some ''64f0000000000000000000aa''"
    by (simp add: create_defs emptyPatch_def)
  have cast: "castKey exampleEnv ''64f0000000000000000000aa'' = Some ''64f0000000000000000000aa''"
    by (simp add: example_defs)
  have noPrimary: "\<forall>d \<in> set [hotelA, ?R].
      \<not> (h_id d = ''64f0000000000000000000aa'' \<and> userId d = Some ''u1'')"
    by (simp add: create_defs example_defs)
  have noEarlier: "\<forall>d \<in> set [hotelA].
      \<not> (hotelId d = Some ''64f0000000000000000000aa'' \<and> userId d = Some ''u1'')"
    by (simp add: example_defs)
  note t = created_hotel_resolves [OF fresh canon created owner,
      of "''64f0000000000000000000aa''" "''64f0000000000000000000aa''"]
  from t have "h_id ?R = ''64f000000000000000000003''" by blast
  moreover from t have "getHotel exampleEnv [hotelA, ?R] ''u1'' (h_id ?R) = Doc 200 ?R" by blast
  moreover from t business cast noPrimary noEarlier
  have "getHotel exampleEnv [hotelA, ?R] ''u1'' ''64f0000000000000000000aa'' = Doc 200 ?R"
    by blast
  ultimately show ?thesis using fresh canon created by simp
qed

section \<open>The limit on image files\<close>

lemma postAddHotel_over_six:
  "6 < length fs \<Longrightarrow> \<exists>err. postAddHotel e now newId st body (Some fs) = (Rejected err, st)"
  using acceptFiles_over [of 0 6 fs] by (auto simp: postAddHotel_def uploadArray_def)

lemma putUpdateHotel_over_six:
  "6 < length fs \<Longrightarrow> \<exists>err. putUpdateHotel e now st ident body (Some fs) = (Rejected err, st)"
  using acceptFiles_over [of 0 6 fs] by (auto simp: putUpdateHotel_def uploadArray_def)

text \<open>
  C9. \<^verbatim>\<open>POST /add-hotel\<close> and \<^verbatim>\<open>PUT /update-hotel/:hotelId\<close> reject a seventh file
  (the two lemmas above); \<^verbatim>\<open>PUT /:hotelId\<close> has no count limit: a request with seven
  image files is processed and all seven URLs are stored.
\<close>

theorem putHotelRoute_seven_files:
  "length sevenFiles = 7
   \<and> putHotelRoute exampleEnv 3000 [hotelA] ''u1'' ''64f000000000000000000001'' emptyPatch
        (Some sevenFiles)
      = (Doc 201 (hotelA\<lparr>lastUpdated := Some 3000,
           imageUrls := map (\<lambda>c. ''https://media.example/png;base64,'' @ c)
             [''A'', ''B'', ''C'', ''D'', ''E'', ''F'', ''G'']\<rparr>),
         [hotelA\<lparr>lastUpdated := Some 3000,
           imageUrls := map (\<lambda>c. ''https://media.example/png;base64,'' @ c)
             [''A'', ''B'', ''C'', ''D'', ''E'', ''F'', ''G'']\<rparr>])"
  by (simp add: sevenFiles_def example_defs model_defs handler_defs)

section \<open>Update, policy A\<close>

text \<open>
  C1. \<^verbatim>\<open>PUT /:hotelId\<close> writes the body and \<open>lastUpdated\<close> with
  \<^verbatim>\<open>findOneAndUpdate\<close> before it uploads: with a batch of three files of which the
  second fails, the answer is the internal error and the stored document has the new
  name and the new \<open>lastUpdated\<close>.
\<close>

theorem putHotel_upload_failure_persists:
  "putHotel exampleEnv 3000 [hotelA] ''u1'' ''64f000000000000000000001''
        (emptyPatch\<lparr>p_name := Some ''Renamed''\<rparr>)
        (Some [pngFile ''AAAA'', textFile ''x'', pngFile ''BBBB''])
      = (Message 500 ''Something went wrong'',
         [hotelA\<lparr>name := Some ''Renamed'', lastUpdated := Some 3000\<rparr>])
   \<and> [hotelA\<lparr>name := Some ''Renamed'', lastUpdated := Some 3000\<rparr>] \<noteq> [hotelA]"
  by (simp add: example_defs model_defs handler_defs)

lemma putFindAndUpdate_eq:
  "\<exists>flt. (\<forall>d. flt d \<longrightarrow> userId d = Some uid)
     \<and> putFindAndUpdate e st uid ident p =
         Inr (map_option (\<lambda>d. (d, applyPatch p d)) (List.find flt st),
              updateFirst flt (applyPatch p) st)"
proof (cases "castKey e ident")
  case None
  show ?thesis
    by (rule exI [of _ "\<lambda>d. hotelId d = Some ident \<and> userId d = Some uid"])
      (simp add: None putFindAndUpdate_def idFilter_def findOneAndUpdate_applyPatch)
next
  case (Some k)
  show ?thesis
    by (rule exI [of _ "\<lambda>d. h_id d = k \<and> userId d = Some uid"])
      (simp add: Some putFindAndUpdate_def idFilter_def findOneAndUpdate_applyPatch)
qed

lemma putHotel_found:
  assumes fu: "putFindAndUpdate e st uid ident (body\<lparr>p_lastUpdated := Some now\<rparr>) =
         Inr (Some (before, hotel), st1)"
  shows "putHotel e now st uid ident body files =
     (case uploadImages e files of
        Inl err \<Rightarrow> (Message 500 ''Something went wrong'', st1)
      | Inr urls \<Rightarrow>
          (Doc 201 (hotel\<lparr>imageUrls := urls @ orElseList (p_imageUrls body) []\<rparr>),
           updateFirst (\<lambda>d. h_id d = h_id hotel)
             (\<lambda>d. d\<lparr>imageUrls := urls @ orElseList (p_imageUrls body) []\<rparr>) st1))"
  by (simp add: putHotel_def Let_def fu save_def split: sum.splits)

lemma putHotel_not_found:
  assumes fu: "putFindAndUpdate e st uid ident (body\<lparr>p_lastUpdated := Some now\<rparr>) =
         Inr (None, st1)"
  shows "putHotel e now st uid ident body files = (Message 404 ''Hotel not found'', st1)"
  by (simp add: putHotel_def Let_def fu)

lemma putHotel_upload_failure:
  assumes "putFindAndUpdate e st uid ident (body\<lparr>p_lastUpdated := Some now\<rparr>) =
         Inr (Some (before, hotel), st1)"
    and "uploadImages e files = Inl err"
  shows "putHotel e now st uid ident body files = (Message 500 ''Something went wrong'', st1)"
  using putHotel_found [OF assms(1), of files] assms(2) by simp

text \<open>
  C2, as stated, fails: an update whose body lists no image URLs and that uploads no
  file empties the image list of the hotel.
\<close>

theorem putHotel_drops_unlisted_image:
  "imageUrls hotelA = [''https://media.example/a.png'']
   \<and> putHotel exampleEnv 3000 [hotelA] ''u1'' ''64f000000000000000000001''
        (emptyPatch\<lparr>p_pricePerNight := Some 120\<rparr>) (Some [])
      = (Doc 201 (hotelA\<lparr>pricePerNight := Some 120, imageUrls := [], lastUpdated := Some 3000\<rparr>),
         [hotelA\<lparr>pricePerNight := Some 120, imageUrls := [], lastUpdated := Some 3000\<rparr>])
   \<and> \<not> set (imageUrls hotelA)
         \<subseteq> set (imageUrls (hotelA\<lparr>pricePerNight := Some 120, imageUrls := [],
                  lastUpdated := Some 3000\<rparr>))"
  by (simp add: example_defs model_defs handler_defs)

text \<open>
  C2, amended. In a store with unique primary keys, a successful \<^verbatim>\<open>PUT /:hotelId\<close>
  leaves the hotel of the owner with the image list made of the uploaded URLs followed
  by the image URLs of the body (none when the body has no such list), in the answer
  and in the store: an entry of the list before the call is in the list after it
  exactly when the body lists it or an upload returned it.
\<close>

theorem putHotel_replaces_imageUrls:
  assumes dist: "distinct (map h_id st)"
    and ok: "putHotel e now st uid ident body files = (Doc s h, st')"
  shows "\<exists>before urls. before \<in> set st \<and> userId before = Some uid \<and> h_id before = h_id h
     \<and> uploadImages e files = Inr urls
     \<and> h = (applyPatch (body\<lparr>p_lastUpdated := Some now\<rparr>) before)
             \<lparr>imageUrls := urls @ orElseList (p_imageUrls body) []\<rparr>
     \<and> imageUrls h = urls @ orElseList (p_imageUrls body) []
     \<and> List.find (\<lambda>d. h_id d = h_id h) st' = Some h
     \<and> (\<forall>u \<in> set (imageUrls before).
           u \<in> set (imageUrls h) \<longleftrightarrow> u \<in> set urls \<or> u \<in> set (orElseList (p_imageUrls body) []))"
proof -
  let ?p = "body\<lparr>p_lastUpdated := Some now\<rparr>"
  let ?cl = "orElseList (p_imageUrls body) []"
  from putFindAndUpdate_eq [of uid e st ident ?p] obtain flt where
    own: "\<forall>d. flt d \<longrightarrow> userId d = Some uid" and
    fu: "putFindAndUpdate e st uid ident ?p =
         Inr (map_option (\<lambda>d. (d, applyPatch ?p d)) (List.find flt st),
              updateFirst flt (applyPatch ?p) st)"
    by blast
  let ?st1 = "updateFirst flt (applyPatch ?p) st"
  obtain before where found: "List.find flt st = Some before"
  proof (cases "List.find flt st")
    case None
    with fu have "putFindAndUpdate e st uid ident ?p = Inr (None, ?st1)" by simp
    from putHotel_not_found [OF this] ok show ?thesis by simp
  next
    case (Some b)
    with that show ?thesis by simp
  qed
  let ?hotel = "applyPatch ?p before"
  from fu found have fu': "putFindAndUpdate e st uid ident ?p = Inr (Some (before, ?hotel), ?st1)"
    by simp
  note run = putHotel_found [OF fu', of files]
  obtain urls where up: "uploadImages e files = Inr urls"
  proof (cases "uploadImages e files")
    case (Inl err)
    with run ok show ?thesis by simp
  next
    case (Inr us)
    with that show ?thesis by simp
  qed
  from run ok up have h: "h = ?hotel\<lparr>imageUrls := urls @ ?cl\<rparr>"
    and st': "st' = updateFirst (\<lambda>d. h_id d = h_id ?hotel) (\<lambda>d. d\<lparr>imageUrls := urls @ ?cl\<rparr>) ?st1"
    by simp_all
  from h have hid: "h_id before = h_id h" by simp
  from found have inset: "before \<in> set st" and "flt before" by (simp_all add: find_in_set)
  with own have owner: "userId before = Some uid" by simp
  have "List.find (\<lambda>x. h_id x = h_id before) ?st1 = Some ?hotel"
    using found dist by (rule find_by_id_updateFirst) simp
  then have "List.find (\<lambda>x. h_id x = h_id before)
      (updateFirst (\<lambda>x. h_id x = h_id before) (\<lambda>d. d\<lparr>imageUrls := urls @ ?cl\<rparr>) ?st1)
      = Some (?hotel\<lparr>imageUrls := urls @ ?cl\<rparr>)"
    by (rule find_updateFirst_same_filter) simp
  with st' h have stored: "List.find (\<lambda>d. h_id d = h_id h) st' = Some h" by simp
  from h have img: "imageUrls h = urls @ ?cl" by simp
  have keep: "\<forall>u \<in> set (imageUrls before).
      u \<in> set (imageUrls h) \<longleftrightarrow> u \<in> set urls \<or> u \<in> set ?cl"
    by (simp add: img)
  from inset owner hid up h img stored keep show ?thesis by blast
qed

theorem putHotel_replaces_imageUrls_witness:
  "distinct (map h_id [hotelA, hotelB])
   \<and> putHotel exampleEnv 3000 [hotelA, hotelB] ''u1'' ''64f000000000000000000001''
        (emptyPatch\<lparr>p_imageUrls := Some [''https://media.example/a.png'']\<rparr>)
        (Some [pngFile ''AAAA''])
      = (Doc 201 (hotelA\<lparr>lastUpdated := Some 3000,
            imageUrls := [''https://media.example/png;base64,AAAA'', ''https://media.example/a.png'']\<rparr>),
         [hotelA\<lparr>lastUpdated := Some 3000,
            imageUrls := [''https://media.example/png;base64,AAAA'', ''https://media.example/a.png'']\<rparr>,
          hotelB])
   \<and> imageUrls (hotelA\<lparr>lastUpdated := Some 3000,
            imageUrls := [''https://media.example/png;base64,AAAA'', ''https://media.example/a.png'']\<rparr>)
      = [''https://media.example/png;base64,AAAA''] @ [''https://media.example/a.png'']
   \<and> List.find (\<lambda>d. h_id d = ''64f000000000000000000001'')
        [hotelA\<lparr>lastUpdated := Some 3000,
            imageUrls := [''https://media.example/png;base64,AAAA'', ''https://media.example/a.png'']\<rparr>,
         hotelB]
      = Some (hotelA\<lparr>lastUpdated := Some 3000,
            imageUrls := [''https://media.example/png;base64,AAAA'', ''https://media.example/a.png'']\<rparr>)"
proof -
  let ?h = "hotelA\<lparr>lastUpdated := Some 3000,
            imageUrls := [''https://media.example/png;base64,AAAA'', ''https://media.example/a.png'']\<rparr>"
  have dist: "distinct (map h_id [hotelA, hotelB])"
    by (simp add: example_defs)
  have ok: "putHotel exampleEnv 3000 [hotelA, hotelB] ''u1'' ''64f000000000000000000001''
        (emptyPatch\<lparr>p_imageUrls := Some [''https://media.example/a.png'']\<rparr>)
        (Some [pngFile ''AAAA'']) = (Doc 201 ?h, [?h, hotelB])"
    by (simp add: example_defs model_defs handler_defs)
  from putHotel_replaces_imageUrls [OF dist ok]
  have stored: "List.find (\<lambda>d. h_id d = h_id ?h) [?h, hotelB] = Some ?h"
    by blast
  from dist ok stored show ?thesis by (simp add: hotelA_def hotelB_def)
qed

section \<open>Update, policy B\<close>

lemma mergedImageUrls_no_files:
  "imageFiles = None \<or> imageFiles = Some [] \<Longrightarrow>
   mergedImageUrls e ex imageFiles = Inr (imageUrls ex)"
  by (auto simp: mergedImageUrls_def)

lemma resolveExisting_in_set: "resolveExisting e st ident = Some ex \<Longrightarrow> ex \<in> set st"
  by (auto simp: resolveExisting_def idFilter_def findOne_def dest: find_in_set
           split: option.splits)

lemma persistUpdate_imageUrls:
  assumes dist: "distinct (map h_id st)" and ex: "ex \<in> set st"
    and id: "h_id upd = h_id ex" and img: "imageUrls upd = imageUrls ex"
  shows "map imageUrls (snd (persistUpdate e st ident ex upd)) = map imageUrls st"
proof (cases "queryFilter e (queryFieldOf ex ident) ident")
  case (Inl err)
  then show ?thesis by (simp add: persistUpdate_def)
next
  case (Inr flt)
  show ?thesis
  proof (cases "List.find flt st")
    case None
    with Inr show ?thesis by (simp add: persistUpdate_def findOneAndUpdate_def)
  next
    case (Some d)
    show ?thesis
    proof (cases "h_id upd = h_id d")
      case False
      with Inr Some show ?thesis by (simp add: persistUpdate_def findOneAndUpdate_def)
    next
      case True
      from Some have "d \<in> set st" by (simp add: find_in_set)
      with dist ex True id have "d = ex" by (auto dest: distinct_h_id_eq)
      with img have "imageUrls ((\<lambda>_. upd) d) = imageUrls d" by simp
      from map_updateFirst_same [OF Some this] Inr Some True
      show ?thesis by (simp add: persistUpdate_def findOneAndUpdate_def)
    qed
  qed
qed

lemma persistUpdate_Doc:
  "fst (persistUpdate e st ident ex upd) = Doc s h \<Longrightarrow> s = 200 \<and> h = upd"
  by (auto simp: persistUpdate_def findOneAndUpdate_def split: sum.splits option.splits if_splits)

text \<open>
  C5. \<^verbatim>\<open>PUT /update-hotel/:hotelId\<close> without new image files (no multipart files, or
  an empty list) in a store with unique primary keys: whatever the body carries, also
  an image list of its own, the image list of every stored document is what it was,
  and a document returned has the image list of the resolved one and the call time as
  \<open>lastUpdated\<close>, with the body's other fields set.
\<close>

theorem updateHotel_no_files_keeps_imageUrls:
  assumes "distinct (map h_id st)" and "imageFiles = None \<or> imageFiles = Some []"
  shows "map imageUrls (snd (updateHotel e now st ident updatedFields imageFiles)) = map imageUrls st
    \<and> (\<forall>s h. fst (updateHotel e now st ident updatedFields imageFiles) = Doc s h \<longrightarrow>
         (\<exists>ex. resolveExisting e st ident = Some ex \<and> imageUrls h = imageUrls ex
            \<and> h = (applyPatch updatedFields ex)\<lparr>imageUrls := imageUrls ex, lastUpdated := Some now\<rparr>))"
proof (cases "resolveExisting e st ident")
  case None
  then show ?thesis by (simp add: updateHotel_def)
next
  case (Some ex)
  let ?upd = "mergedHotel now ex updatedFields (imageUrls ex)"
  have run: "updateHotel e now st ident updatedFields imageFiles = persistUpdate e st ident ex ?upd"
    using Some assms(2) by (simp add: updateHotel_def mergedImageUrls_no_files)
  have "h_id ?upd = h_id ex" and "imageUrls ?upd = imageUrls ex"
    by (simp_all add: mergedHotel_def)
  with assms(1) resolveExisting_in_set [OF Some]
  have "map imageUrls (snd (persistUpdate e st ident ex ?upd)) = map imageUrls st"
    by (rule persistUpdate_imageUrls)
  moreover have "\<And>s h. fst (persistUpdate e st ident ex ?upd) = Doc s h \<Longrightarrow> h = ?upd"
    by (simp add: persistUpdate_Doc)
  ultimately show ?thesis using Some run by (auto simp: mergedHotel_def)
qed

theorem updateHotel_no_files_keeps_imageUrls_witness:
  "distinct (map h_id [hotelA, hotelB])
   \<and> updateHotel exampleEnv 3000 [hotelA, hotelB] ''h1''
        (emptyPatch\<lparr>p_pricePerNight := Some 120, p_imageUrls := Some [''https://else.example/x.png'']\<rparr>)
        (Some [])
      = (Doc 200 (hotelA\<lparr>pricePerNight := Some 120, lastUpdated := Some 3000\<rparr>),
         [hotelA\<lparr>pricePerNight := Some 120, lastUpdated := Some 3000\<rparr>, hotelB])
   \<and> imageUrls (hotelA\<lparr>pricePerNight := Some 120, lastUpdated := Some 3000\<rparr>) = imageUrls hotelA"
  using updateHotel_no_files_keeps_imageUrls [of "[hotelA, hotelB]" "Some []" exampleEnv 3000 "''h1''"
      "emptyPatch\<lparr>p_pricePerNight := Some 120, p_imageUrls := Some [''https://else.example/x.png'']\<rparr>"]
  by (simp add: example_defs model_defs handler_defs)

lemma persistUpdate_no_row:
  "queryFilter e (queryFieldOf ex ident) ident = Inr flt \<Longrightarrow> List.find flt st2 = None \<Longrightarrow>
   persistUpdate e st2 ident ex upd = (Message 404 ''Hotel not found'', st2)"
  by (simp add: persistUpdate_def findOneAndUpdate_def)

lemma persistUpdate_row:
  "queryFilter e (queryFieldOf ex ident) ident = Inr flt \<Longrightarrow> List.find flt st2 = Some d \<Longrightarrow>
   h_id d = h_id upd \<Longrightarrow>
   persistUpdate e st2 ident ex upd = (Doc 200 upd, updateFirst flt (\<lambda>d. upd) st2)"
  by (simp add: persistUpdate_def findOneAndUpdate_def)

lemma updateHotel_resolved:
  "resolveExisting e st ident = Some ex \<Longrightarrow> mergedImageUrls e ex imageFiles = Inr urls \<Longrightarrow>
   updateHotel e now st ident updatedFields imageFiles =
     persistUpdate e st ident ex (mergedHotel now ex updatedFields urls)"
  by (simp add: updateHotel_def)

lemma queryFieldOf_noncanonical:
  "castKey e ident = Some k \<Longrightarrow> k \<noteq> ident \<Longrightarrow> resolveExisting e st ident = Some ex \<Longrightarrow>
   h_id ex = k \<and> queryFieldOf ex ident = QueryHotelId"
  by (auto simp: resolveExisting_def idFilter_def findOne_def queryFieldOf_def dest: find_in_set)

text \<open>
  C6. \<^verbatim>\<open>PUT /update-hotel/:hotelId\<close> with the primary key of a stored hotel written in
  upper-case hexadecimal digits: the cast accepts the identifier and the hotel is
  resolved by its primary key (its \<^verbatim>\<open>hotelId\<close> is another string), but the string
  of its primary key is not the identifier, so the update is keyed on
  \<^verbatim>\<open>hotelId\<close>, matches no document, and the handler answers 404 and writes nothing
  although the hotel is in the store.
\<close>

theorem updateHotel_keyed_on_other_field:
  "castKey exampleEnv ''64F000000000000000000001'' = Some ''64f000000000000000000001''
   \<and> h_id hotelA = ''64f000000000000000000001'' \<and> hotelId hotelA = Some ''h1''
   \<and> resolveExisting exampleEnv [hotelA, hotelB] ''64F000000000000000000001'' = Some hotelA
   \<and> queryFieldOf hotelA ''64F000000000000000000001'' = QueryHotelId
   \<and> updateHotel exampleEnv 3000 [hotelA, hotelB] ''64F000000000000000000001''
        (emptyPatch\<lparr>p_pricePerNight := Some 120\<rparr>) (Some [])
      = (Message 404 ''Hotel not found'', [hotelA, hotelB])
   \<and> updateHotel exampleEnv 3000 [hotelA, hotelB] ''64f000000000000000000001''
        (emptyPatch\<lparr>p_pricePerNight := Some 120\<rparr>) (Some [])
      = (Doc 200 (hotelA\<lparr>pricePerNight := Some 120, lastUpdated := Some 3000\<rparr>),
         [hotelA\<lparr>pricePerNight := Some 120, lastUpdated := Some 3000\<rparr>, hotelB])"
  by (simp add: example_defs model_defs handler_defs)

end
